theory Spec2Isabelle
  imports Complex_Main "HOL-Library.AList" "HOL-Library.Char_ord" "HOL-Library.List_Lexorder"
begin

section \<open>Python strings\<close>

text \<open>
  A Python \<open>str\<close> is modelled as a \<open>string\<close>, one \<open>char\<close> per code point
  (code points below 256). The functions of this section are the \<open>str\<close> methods and the
  regular expressions that \<open>daily_arxiv.py\<close> calls.
\<close>

text \<open>\<open>s.find(c)\<close> for a one-character needle: the first index, or \<open>-1\<close>.\<close>

fun str_find :: "char \<Rightarrow> string \<Rightarrow> int" where
  "str_find c [] = - 1"
| "str_find c (x # xs) =
     (if x = c then 0
      else (let r = str_find c xs in if r = - 1 then - 1 else r + 1))"

text \<open>
  \<open>c.isspace()\<close> for a code point below 256: the characters that \<open>str.split()\<close> and
  \<open>str.strip()\<close> without argument treat as whitespace.
\<close>

definition is_space :: "char \<Rightarrow> bool" where
  "is_space c =
     (let n = (of_char c :: nat)
      in (9 \<le> n \<and> n \<le> 13) \<or> (28 \<le> n \<and> n \<le> 32) \<or> n = 133 \<or> n = 160)"

text \<open>\<open>s.strip()\<close>: whitespace removed at both ends.\<close>

definition str_strip :: "string \<Rightarrow> string" where
  "str_strip s = rev (dropWhile is_space (rev (dropWhile is_space s)))"

text \<open>
  \<open>s.split()\<close> without argument: the maximal runs of non-whitespace characters. The
  first argument is the token being read.
\<close>

fun split_ws_from :: "string \<Rightarrow> string \<Rightarrow> string list" where
  "split_ws_from cur [] = (if cur = [] then [] else [cur])"
| "split_ws_from cur (c # cs) =
     (if is_space c
      then (if cur = [] then split_ws_from [] cs else cur # split_ws_from [] cs)
      else split_ws_from (cur @ [c]) cs)"

definition str_split_ws :: "string \<Rightarrow> string list" where
  "str_split_ws s = split_ws_from [] s"

text \<open>\<open>s.split(sep)\<close> for a one-character separator: never the empty list.\<close>

fun str_split :: "char \<Rightarrow> string \<Rightarrow> string list" where
  "str_split sep [] = [[]]"
| "str_split sep (c # cs) =
     (if c = sep then [] # str_split sep cs
      else (case str_split sep cs of
              [] \<Rightarrow> [[c]]
            | p # ps \<Rightarrow> (c # p) # ps))"

text \<open>\<open>s.startswith(p)\<close>.\<close>

fun starts_with :: "string \<Rightarrow> string \<Rightarrow> bool" where
  "starts_with [] s = True"
| "starts_with (p # ps) [] = False"
| "starts_with (p # ps) (c # cs) = (p = c \<and> starts_with ps cs)"

text \<open>
  \<open>s.replace(old, new)\<close> for a non-empty \<open>old\<close>: every occurrence found scanning from
  the left, the scan resuming after each replaced occurrence.
\<close>

function str_replace :: "string \<Rightarrow> string \<Rightarrow> string \<Rightarrow> string" where
  "str_replace old new [] = []"
| "str_replace old new (c # cs) =
     (if old \<noteq> [] \<and> starts_with old (c # cs)
      then new @ str_replace old new (drop (length old) (c # cs))
      else c # str_replace old new cs)"
  by pat_completeness auto
termination
  by (relation "measure (\<lambda>(old, new, s). length s)") (auto simp: neq_Nil_conv)

text \<open>\<open>sep.join(xs)\<close>.\<close>

fun str_join :: "string \<Rightarrow> string list \<Rightarrow> string" where
  "str_join sep [] = []"
| "str_join sep [x] = x"
| "str_join sep (x # y # ys) = x @ sep @ str_join sep (y # ys)"

text \<open>\<open>s.lower()\<close> on code points below 256, and \<open>s.replace(a, b)\<close> for single characters.\<close>

definition lower_char :: "char \<Rightarrow> char" where
  "lower_char c =
     (let n = (of_char c :: nat)
      in if (65 \<le> n \<and> n \<le> 90) \<or> (192 \<le> n \<and> n \<le> 222 \<and> n \<noteq> 215)
         then char_of (n + 32) else c)"

definition str_lower :: "string \<Rightarrow> string" where
  "str_lower s = map lower_char s"

definition replace_char :: "char \<Rightarrow> char \<Rightarrow> string \<Rightarrow> string" where
  "replace_char a b s = map (\<lambda>c. if c = a then b else c) s"

section \<open>Keyword formatter (lines 34-59)\<close>

text \<open>
  The loop \<open>for idx, filter_word in enumerate(filters)\<close>: \<open>n\<close> is \<open>len(filters)\<close>,
  \<open>idx\<close> the index of the head of the remaining list, the last argument the string built
  so far.
\<close>

definition QUOTE :: string where
  "QUOTE = [CHR 0x22]"

definition OR_SEPARATOR :: string where
  "OR_SEPARATOR = '' OR ''"

fun parse_filter_loop :: "nat \<Rightarrow> nat \<Rightarrow> string list \<Rightarrow> string \<Rightarrow> string" where
  "parse_filter_loop n idx [] formatted_filter = formatted_filter"
| "parse_filter_loop n idx (filter_word # rest) formatted_filter =
     (let quoted =
            (if 1 < length (str_split_ws filter_word)
             then formatted_filter @ QUOTE @ filter_word @ QUOTE
             else formatted_filter @ filter_word);
          separated = (if int idx \<noteq> int n - 1 then quoted @ OR_SEPARATOR else quoted)
      in parse_filter_loop n (Suc idx) rest separated)"

definition parse_filter_keywords :: "string list \<Rightarrow> string" where
  "parse_filter_keywords filters = parse_filter_loop (length filters) 0 filters []"

text \<open>The formatted form of one phrase, as the loop body appends it.\<close>

definition format_phrase :: "string \<Rightarrow> string" where
  "format_phrase filter_word =
     (if 1 < length (str_split_ws filter_word) then QUOTE @ filter_word @ QUOTE
      else filter_word)"

section \<open>LaTeX fix-up (lines 365-388)\<close>

text \<open>
  \<open>re.search(r"\$.*\$", text)\<close>. \<open>greedy_dollar s\<close> matches \<open>.*\$\<close> at the start of
  \<open>s\<close>: \<open>.\<close> is any character but the newline and \<open>*\<close> is greedy, so the match ends
  at the last dollar sign before the first newline; the result is its length.
  \<open>re_search_formula\<close> is the span of the leftmost match.
\<close>

fun greedy_dollar :: "string \<Rightarrow> nat option" where
  "greedy_dollar [] = None"
| "greedy_dollar (c # cs) =
     (if c = CHR 0x0A then None
      else (case greedy_dollar cs of
              Some n \<Rightarrow> Some (Suc n)
            | None \<Rightarrow> if c = CHR ''$'' then Some 1 else None))"

fun re_search_formula :: "string \<Rightarrow> (nat \<times> nat) option" where
  "re_search_formula [] = None"
| "re_search_formula (c # cs) =
     (case (if c = CHR ''$'' then greedy_dollar cs else None) of
        Some n \<Rightarrow> Some (0, Suc n)
      | None \<Rightarrow> map_option (\<lambda>(s, e). (Suc s, Suc e)) (re_search_formula cs))"

definition format_latex_formula :: "string \<Rightarrow> string" where
  "format_latex_formula text =
     (case re_search_formula text of
        None \<Rightarrow> text
      | Some (formula_start, formula_end) \<Rightarrow>
          (let trailing_space =
                 (if 0 < formula_start
                     \<and> text ! (formula_start - 1) \<notin> {CHR '' '', CHR ''*''}
                  then '' '' else []);
               leading_space =
                 (if formula_end < length text
                     \<and> text ! formula_end \<notin> {CHR '' '', CHR ''*''}
                  then '' '' else []);
               group = take (formula_end - formula_start) (drop formula_start text)
           in take formula_start text
              @ trailing_space @ ''$'' @ str_strip (butlast (tl group)) @ ''$'' @ leading_space
              @ drop formula_end text))"

text \<open>
  The fix-up as the specification words it, for comparison: the region is the first
  substring delimited by a pair of dollar signs, from the first dollar sign to the next one.
\<close>

definition spec_first_pair_fixup :: "string \<Rightarrow> string" where
  "spec_first_pair_fixup text =
     (let pre = takeWhile (\<lambda>c. c \<noteq> CHR ''$'') text;
          rest = drop (Suc (length pre)) text;
          inner = takeWhile (\<lambda>c. c \<noteq> CHR ''$'') rest;
          post = drop (Suc (length inner)) rest
      in if length pre < length text \<and> length inner < length rest
         then pre
              @ (if pre \<noteq> [] \<and> last pre \<notin> {CHR '' '', CHR ''*''} then '' '' else [])
              @ ''$'' @ str_strip inner @ ''$''
              @ (if post \<noteq> [] \<and> hd post \<notin> {CHR '' '', CHR ''*''} then '' '' else [])
              @ post
         else text)"

section \<open>Dictionaries and the record store\<close>

text \<open>
  A Python \<open>dict\<close> is an association list in insertion order; \<open>map_of\<close> looks a key up,
  \<open>AList.update k v\<close> is the assignment \<open>d[k] = v\<close> (the value replaced in place when the
  key exists, the pair appended otherwise). A topic maps identifiers to rendered strings,
  a store document maps topic names to topics.
\<close>

type_synonym papers = "(string \<times> string) list"

type_synonym document = "(string \<times> papers) list"

text \<open>\<open>d.update(other)\<close>: the assignment \<open>d[k] = v\<close> for every item of \<open>other\<close>, in order.\<close>

definition dict_update :: "('k \<times> 'v) list \<Rightarrow> ('k \<times> 'v) list \<Rightarrow> ('k \<times> 'v) list" where
  "dict_update d other = fold (\<lambda>(k, v). AList.update k v) other d"

text \<open>The exceptions that the modelled statements raise.\<close>

datatype exn =
  FileNotFoundError | JSONDecodeError | IndexError | KeyError | TypeError
  | RequestException | HTTPError

text \<open>
  The file system maps a path to the text of the file. \<open>open(path, "r")\<close> raises
  \<open>FileNotFoundError\<close> when there is no file. \<open>json.loads\<close> and \<open>json.dump\<close> are
  parameters: \<open>json_loads\<close> raises on text that is not a JSON document of the store's shape.
\<close>

type_synonym filesystem = "string \<rightharpoonup> string"

definition read_file :: "filesystem \<Rightarrow> string \<Rightarrow> exn + string" where
  "read_file fs path = (case fs path of None \<Rightarrow> Inl FileNotFoundError | Some content \<Rightarrow> Inr content)"

text \<open>
  The load that opens \<open>update_paper_code_links\<close> (lines 285-287),
  \<open>update_papers_json_file\<close> (lines 329-331) and \<open>convert_json_to_markdown\<close>
  (lines 391-393):
  \<^verbatim>\<open>
  with open(json_file_path, "r", encoding="utf-8") as f:
      content = f.read()
      paper_data = json.loads(content) if content else {}
  \<close>
\<close>

definition load_paper_data ::
  "(string \<Rightarrow> exn + document) \<Rightarrow> filesystem \<Rightarrow> string \<Rightarrow> exn + document" where
  "load_paper_data json_loads fs json_file_path =
     (case read_file fs json_file_path of
        Inl e \<Rightarrow> Inl e
      | Inr content \<Rightarrow> if content \<noteq> [] then json_loads content else Inr [])"

section \<open>Merge (lines 320-345)\<close>

text \<open>
  The body of the inner loop, for one item \<open>(topic, new_papers)\<close> of one mapping of the
  batch. The mappings of a batch are distinct objects (each call of the fetch builds its
  own), so the assignment \<open>existing_data[topic] = new_papers\<close> shares no mapping between
  two topics and the store is modelled by value.
\<close>

fun merge_topic :: "string \<times> papers \<Rightarrow> document \<Rightarrow> document" where
  "merge_topic (topic, new_papers) existing_data =
     (case map_of existing_data topic of
        Some old_papers \<Rightarrow> AList.update topic (dict_update old_papers new_papers) existing_data
      | None \<Rightarrow> AList.update topic new_papers existing_data)"

definition merge_papers :: "document \<Rightarrow> document list \<Rightarrow> document" where
  "merge_papers existing_data new_papers_data =
     fold (\<lambda>new_topic_data existing. fold merge_topic new_topic_data existing)
       new_papers_data existing_data"

definition update_papers_json_file ::
  "(string \<Rightarrow> exn + document) \<Rightarrow> (document \<Rightarrow> string) \<Rightarrow> filesystem \<Rightarrow> string
     \<Rightarrow> document list \<Rightarrow> exn + filesystem" where
  "update_papers_json_file json_loads json_dumps fs json_file_path new_papers_data =
     (case load_paper_data json_loads fs json_file_path of
        Inl e \<Rightarrow> Inl e
      | Inr existing_data \<Rightarrow>
          Inr (fs(json_file_path \<mapsto> json_dumps (merge_papers existing_data new_papers_data))))"

text \<open>
  The entry stored for an identifier under a topic, and the entry that a batch carries for
  it: the one of the last item of the batch, in order, that holds the identifier under
  the topic.
\<close>

definition store_entry :: "document \<Rightarrow> string \<Rightarrow> string \<Rightarrow> string option" where
  "store_entry doc topic paper_id =
     (case map_of doc topic of None \<Rightarrow> None | Some ps \<Rightarrow> map_of ps paper_id)"

fun batch_entry :: "(string \<times> papers) list \<Rightarrow> string \<Rightarrow> string \<Rightarrow> string option" where
  "batch_entry [] topic paper_id = None"
| "batch_entry ((t, ps) # items) topic paper_id =
     (case batch_entry items topic paper_id of
        Some v \<Rightarrow> Some v
      | None \<Rightarrow> if t = topic then map_of ps paper_id else None)"

section \<open>Renderer (lines 120-130 and 348-469)\<close>

definition NL :: string where
  "NL = [CHR 0x0A]"

text \<open>
  \<open>sort_papers_by_id_desc\<close>: the keys sorted in descending order (strings compare
  lexicographically by code point), each with its value.
\<close>

definition sort_papers_by_id_desc :: "papers \<Rightarrow> papers" where
  "sort_papers_by_id_desc papers =
     (let sorted_paper_ids = rev (sort (map fst papers))
      in List.map_filter (\<lambda>paper_id. map_option (Pair paper_id) (map_of papers paper_id))
           sorted_paper_ids)"

record render_options =
  to_web :: bool
  use_title :: bool
  use_toc :: bool
  show_badge :: bool
  use_back_to_top :: bool

text \<open>Lines 405-415: front matter, title line, usage line.\<close>

definition render_head :: "render_options \<Rightarrow> string \<Rightarrow> string" where
  "render_head opts current_date =
     (if to_web opts \<and> use_title opts
      then ''---'' @ NL @ ''layout: default'' @ NL @ ''---'' @ NL @ NL else [])
     @ (if use_title opts then ''## Updated on '' @ current_date @ NL
        else ''> Updated on '' @ current_date @ NL)
     @ ''> Usage instructions: [here](./docs/README.md#usage)'' @ NL @ NL"

text \<open>Lines 418-424: the table of contents, one line for every topic key.\<close>

definition toc_line :: "string \<Rightarrow> string" where
  "toc_line topic =
     (let topic_link = str_lower (replace_char CHR '' '' CHR ''-'' topic)
      in ''    <li><a href=#'' @ topic_link @ ''>'' @ topic @ ''</a></li>'' @ NL)"

definition render_toc :: "document \<Rightarrow> string" where
  "render_toc paper_data =
     ''<details>'' @ NL @ ''  <summary>Table of Contents</summary>'' @ NL @ ''  <ol>'' @ NL
     @ concat (map (\<lambda>(topic, papers). toc_line topic) paper_data)
     @ ''  </ol>'' @ NL @ ''</details>'' @ NL @ NL"

text \<open>Lines 427-453: the section of one topic; nothing for a topic without entries.\<close>

definition render_topic :: "render_options \<Rightarrow> string \<Rightarrow> string \<times> papers \<Rightarrow> string" where
  "render_topic opts current_date item =
     (case item of (topic, papers) \<Rightarrow>
        if papers = [] then []
        else
          ''## '' @ topic @ NL @ NL
          @ (if use_title opts \<and> \<not> to_web opts
             then ''|Publish Date|Title|Authors|PDF|Code|'' @ NL @ ''|---|---|---|---|---|'' @ NL
             else if use_title opts \<and> to_web opts
             then ''| Publish Date | Title | Authors | PDF | Code |'' @ NL
                  @ ''|:---------|:-----------------------|:---------|:------|:------|'' @ NL
             else [])
          @ concat (map (\<lambda>(paper_id, markdown_content).
                           if markdown_content \<noteq> [] then format_latex_formula markdown_content
                           else [])
                      (sort_papers_by_id_desc papers))
          @ NL
          @ (if use_back_to_top opts
             then (let top_link = ''#updated-on-'' @ filter (\<lambda>c. c \<noteq> CHR ''.'') current_date
                   in ''<p align=right>(<a href='' @ top_link @ ''>back to top</a>)</p>''
                      @ NL @ NL)
             else []))"

definition render_sections :: "render_options \<Rightarrow> string \<Rightarrow> document \<Rightarrow> string" where
  "render_sections opts current_date paper_data =
     concat (map (render_topic opts current_date) paper_data)"

text \<open>Lines 456-467: the badge references.\<close>

definition badge_template :: string where
  "badge_template =
     ''[contributors-shield]: https://img.shields.io/github/contributors/Vincentqyw/cv-arxiv-daily.svg?style=for-the-badge'' @ NL
     @ ''[contributors-url]: https://github.com/Vincentqyw/cv-arxiv-daily/graphs/contributors'' @ NL
     @ ''[forks-shield]: https://img.shields.io/github/forks/Vincentqyw/cv-arxiv-daily.svg?style=for-the-badge'' @ NL
     @ ''[forks-url]: https://github.com/Vincentqyw/cv-arxiv-daily/network/members'' @ NL
     @ ''[stars-shield]: https://img.shields.io/github/stars/Vincentqyw/cv-arxiv-daily.svg?style=for-the-badge'' @ NL
     @ ''[stars-url]: https://github.com/Vincentqyw/cv-arxiv-daily/stargazers'' @ NL
     @ ''[issues-shield]: https://img.shields.io/github/issues/Vincentqyw/cv-arxiv-daily.svg?style=for-the-badge'' @ NL
     @ ''[issues-url]: https://github.com/Vincentqyw/cv-arxiv-daily/issues'' @ NL @ NL"

text \<open>The text written to the Markdown file, \<open>current_date\<close> in the form \<open>YYYY.MM.DD\<close>.\<close>

definition render_markdown :: "render_options \<Rightarrow> string \<Rightarrow> document \<Rightarrow> string" where
  "render_markdown opts current_date paper_data =
     render_head opts current_date
     @ (if use_toc opts then render_toc paper_data else [])
     @ render_sections opts current_date paper_data
     @ (if show_badge opts then badge_template else [])"

definition convert_json_to_markdown ::
  "(string \<Rightarrow> exn + document) \<Rightarrow> string \<Rightarrow> filesystem \<Rightarrow> string \<Rightarrow> string
     \<Rightarrow> render_options \<Rightarrow> exn + filesystem" where
  "convert_json_to_markdown json_loads current_date fs json_file_path md_file_path opts =
     (case load_paper_data json_loads fs json_file_path of
        Inl e \<Rightarrow> Inl e
      | Inr paper_data \<Rightarrow>
          Inr (fs(md_file_path \<mapsto> render_markdown opts current_date paper_data)))"

text \<open>The document without its topics that have no entry.\<close>

definition drop_empty_topics :: "document \<Rightarrow> document" where
  "drop_empty_topics paper_data = filter (\<lambda>(topic, papers). papers \<noteq> []) paper_data"

section \<open>Identifier normalisation (fetch, lines 205-207)\<close>

text \<open>
  \<^verbatim>\<open>
  version_pos = raw_paper_id.find("v")
  clean_paper_id = raw_paper_id[:version_pos] if version_pos != -1 else raw_paper_id
  \<close>
\<close>

definition clean_paper_id :: "string \<Rightarrow> string" where
  "clean_paper_id raw_paper_id =
     (let version_pos = str_find CHR ''v'' raw_paper_id
      in if version_pos \<noteq> - 1 then take (nat version_pos) raw_paper_id else raw_paper_id)"

section \<open>Code-link resolver\<close>

text \<open>
  Statements that may raise are values of \<open>exn + 'a\<close>, sequenced by \<open>ebind\<close>; a loop
  whose body may raise is \<open>efold\<close>, which stops at the first exception.
\<close>

definition ebind :: "exn + 'a \<Rightarrow> ('a \<Rightarrow> exn + 'b) \<Rightarrow> exn + 'b" where
  "ebind m f = (case m of Inl e \<Rightarrow> Inl e | Inr x \<Rightarrow> f x)"

fun efold :: "('a \<Rightarrow> 's \<Rightarrow> exn + 's) \<Rightarrow> 'a list \<Rightarrow> 's \<Rightarrow> exn + 's" where
  "efold f [] s = Inr s"
| "efold f (x # xs) s = (case f x s of Inl e \<Rightarrow> Inl e | Inr s' \<Rightarrow> efold f xs s')"

text \<open>
  The value that \<open>response.json()\<close> returns, with Python's truth value, the test
  \<open>key in value\<close>, and the subscript \<open>value[key]\<close> for a string key.
\<close>

datatype json =
  JNull | JBool bool | JNum rat | JStr string | JArr "json list" | JObj "(string \<times> json) list"

fun py_truthy :: "json \<Rightarrow> bool" where
  "py_truthy JNull = False"
| "py_truthy (JBool b) = b"
| "py_truthy (JNum n) = (n \<noteq> 0)"
| "py_truthy (JStr s) = (s \<noteq> [])"
| "py_truthy (JArr xs) = (xs \<noteq> [])"
| "py_truthy (JObj kvs) = (kvs \<noteq> [])"

fun str_contains :: "string \<Rightarrow> string \<Rightarrow> bool" where
  "str_contains sub [] = (sub = [])"
| "str_contains sub (c # cs) = (starts_with sub (c # cs) \<or> str_contains sub cs)"

fun py_in :: "string \<Rightarrow> json \<Rightarrow> exn + bool" where
  "py_in key (JObj kvs) = Inr (map_of kvs key \<noteq> None)"
| "py_in key (JArr xs) = Inr (JStr key \<in> set xs)"
| "py_in key (JStr s) = Inr (str_contains key s)"
| "py_in key JNull = Inl TypeError"
| "py_in key (JBool b) = Inl TypeError"
| "py_in key (JNum n) = Inl TypeError"

fun py_getitem :: "json \<Rightarrow> string \<Rightarrow> exn + json" where
  "py_getitem (JObj kvs) key = (case map_of kvs key of None \<Rightarrow> Inl KeyError | Some v \<Rightarrow> Inr v)"
| "py_getitem JNull key = Inl TypeError"
| "py_getitem (JBool b) key = Inl TypeError"
| "py_getitem (JNum n) key = Inl TypeError"
| "py_getitem (JStr s) key = Inl TypeError"
| "py_getitem (JArr xs) key = Inl TypeError"

text \<open>
  \<open>str(value)\<close> inside an f-string: a string is itself; the text of any other value is
  given by the parameter \<open>str_other\<close>.
\<close>

definition py_str :: "(json \<Rightarrow> string) \<Rightarrow> json \<Rightarrow> string" where
  "py_str str_other v = (case v of JStr s \<Rightarrow> s | _ \<Rightarrow> str_other v)"

text \<open>
  \<open>requests.get(url)\<close> is the parameter \<open>http_get\<close>: it raises or returns a response,
  whose \<open>json()\<close> raises or returns a value. \<open>raise_for_status()\<close> raises on a status
  from 400 to 599.
\<close>

record response =
  status_code :: nat
  json_body :: "exn + json"

definition raise_for_status :: "response \<Rightarrow> exn + unit" where
  "raise_for_status r =
     (if 400 \<le> status_code r \<and> status_code r < 600 then Inl HTTPError else Inr ())"

definition PAPERS_WITH_CODE_BASE_URL :: string where
  "PAPERS_WITH_CODE_BASE_URL = ''https://arxiv.paperswithcode.com/api/v0/papers/''"

definition ARXIV_BASE_URL :: string where
  "ARXIV_BASE_URL = ''http://arxiv.org/''"

text \<open>
  The statements that the fetch (lines 216-222) and the backfill (lines 301-306) both
  run inside their \<open>try\<close>:
  \<^verbatim>\<open>
  response = requests.get(api)
  response.raise_for_status()
  pwc_data = response.json()
  if "official" in pwc_data and pwc_data["official"]:
      ... pwc_data["official"]["url"] ...
  \<close>
  The result is \<open>Inl\<close> the exception raised, \<open>Inr None\<close> when the condition is false,
  and \<open>Inr (Some url)\<close> otherwise.
\<close>

definition pwc_official_url :: "(string \<Rightarrow> exn + response) \<Rightarrow> string \<Rightarrow> exn + json option" where
  "pwc_official_url http_get api =
     ebind (http_get api) (\<lambda>response.
     ebind (raise_for_status response) (\<lambda>u.
     ebind (json_body response) (\<lambda>pwc_data.
     ebind (py_in ''official'' pwc_data) (\<lambda>has_official.
       if has_official
       then ebind (py_getitem pwc_data ''official'') (\<lambda>official.
              if py_truthy official
              then ebind (py_getitem official ''url'') (\<lambda>url. Inr (Some url))
              else Inr None)
       else Inr None))))"

section \<open>Item fetcher (lines 99-117 and 166-261)\<close>

text \<open>
  An item of the search result, with the fields that the fetch reads. The authors are
  their names (\<open>str(author)\<close>), the dates the text that the f-string gives them, the comment
  is \<open>None\<close> or a string.
\<close>

record paper =
  paper_short_id :: string
  paper_title :: string
  paper_entry_id :: string
  paper_summary :: string
  paper_authors :: "string list"
  paper_primary_category :: string
  paper_published_date :: string
  paper_updated_date :: string
  paper_comment :: "string option"

definition format_authors :: "string list \<Rightarrow> bool \<Rightarrow> string" where
  "format_authors author_names only_first_author =
     (if only_first_author
      then (case author_names of [] \<Rightarrow> ''Unknown Author'' | a # as \<Rightarrow> a @ '' et.al.'')
      else (if author_names \<noteq> [] then str_join '', '' author_names else ''Unknown Authors''))"

text \<open>
  Lines 215-231: the \<open>try\<close> with its \<open>except Exception\<close>; \<open>code_url\<close> stays \<open>None\<close> when
  the body raises.
\<close>

definition fetch_code_url :: "(string \<Rightarrow> exn + response) \<Rightarrow> string \<Rightarrow> json option" where
  "fetch_code_url http_get papers_with_code_api =
     (case pwc_official_url http_get papers_with_code_api of
        Inl e \<Rightarrow> None
      | Inr code_url \<Rightarrow> code_url)"

text \<open>Lines 235-258: the two rendered strings, \<open>code_url\<close> being tested for truth.\<close>

definition table_row :: "(json \<Rightarrow> string) \<Rightarrow> string \<Rightarrow> string \<Rightarrow> string \<Rightarrow> string \<Rightarrow> json option \<Rightarrow> string" where
  "table_row str_other update_date title first_author clean_id code_url =
     (let clean_arxiv_url = ARXIV_BASE_URL @ ''abs/'' @ clean_id;
          left = ''|**'' @ update_date @ ''**|**'' @ title @ ''**|'' @ first_author
                 @ ''|['' @ clean_id @ '']('' @ clean_arxiv_url @ '')|''
      in case code_url of
           Some u \<Rightarrow>
             if py_truthy u then left @ ''**[link]('' @ py_str str_other u @ '')**|'' @ NL
             else left @ ''null|'' @ NL
         | None \<Rightarrow> left @ ''null|'' @ NL)"

definition list_item :: "(json \<Rightarrow> string) \<Rightarrow> string \<Rightarrow> string \<Rightarrow> string \<Rightarrow> string \<Rightarrow> json option \<Rightarrow> string option \<Rightarrow> string" where
  "list_item str_other update_date title first_author clean_id code_url paper_comments =
     (let clean_arxiv_url = ARXIV_BASE_URL @ ''abs/'' @ clean_id;
          left = ''- '' @ update_date @ '', **'' @ title @ ''**, '' @ first_author
                 @ '', Paper: ['' @ clean_arxiv_url @ '']('' @ clean_arxiv_url @ '')'';
          item =
            (case code_url of
               Some u \<Rightarrow>
                 if py_truthy u
                 then left @ '', Code: **['' @ py_str str_other u @ '']('' @ py_str str_other u @ '')**''
                 else left
             | None \<Rightarrow> left)
      in case paper_comments of
           Some c \<Rightarrow> if c \<noteq> [] then item @ '', '' @ c @ NL else item @ NL
         | None \<Rightarrow> item @ NL)"

text \<open>The body of the loop over the search results (lines 190-259).\<close>

definition fetch_paper ::
  "(string \<Rightarrow> exn + response) \<Rightarrow> (json \<Rightarrow> string) \<Rightarrow> paper \<Rightarrow> papers \<times> papers \<Rightarrow> papers \<times> papers" where
  "fetch_paper http_get str_other p data =
     (case data of (markdown_table_data, markdown_list_data) \<Rightarrow>
        (let first_author = format_authors (paper_authors p) True;
             clean_id = clean_paper_id (paper_short_id p);
             code_url = fetch_code_url http_get (PAPERS_WITH_CODE_BASE_URL @ clean_id)
         in (AList.update clean_id
               (table_row str_other (paper_updated_date p) (paper_title p) first_author clean_id
                  code_url)
               markdown_table_data,
             AList.update clean_id
               (list_item str_other (paper_updated_date p) (paper_title p) first_author clean_id
                  code_url (paper_comment p))
               markdown_list_data)))"

text \<open>
  The search of the paper index is the parameter \<open>search\<close> (query and maximum count); its
  failure is not caught.
\<close>

definition fetch_daily_arxiv_papers ::
  "(string \<Rightarrow> nat \<Rightarrow> exn + paper list) \<Rightarrow> (string \<Rightarrow> exn + response) \<Rightarrow> (json \<Rightarrow> string)
     \<Rightarrow> string \<Rightarrow> string \<Rightarrow> nat \<Rightarrow> exn + (document \<times> document)" where
  "fetch_daily_arxiv_papers search http_get str_other topic search_query max_results =
     (case search search_query max_results of
        Inl e \<Rightarrow> Inl e
      | Inr results \<Rightarrow>
          (case fold (fetch_paper http_get str_other) results ([], []) of
             (markdown_table_data, markdown_list_data) \<Rightarrow>
               Inr ([(topic, markdown_table_data)], [(topic, markdown_list_data)])))"

text \<open>The loop over the topics in \<open>main_workflow\<close> (lines 499-508).\<close>

fun fetch_topics ::
  "(string \<Rightarrow> nat \<Rightarrow> exn + paper list) \<Rightarrow> (string \<Rightarrow> exn + response) \<Rightarrow> (json \<Rightarrow> string)
     \<Rightarrow> nat \<Rightarrow> (string \<times> string) list \<Rightarrow> document list \<times> document list
     \<Rightarrow> exn + (document list \<times> document list)" where
  "fetch_topics search http_get str_other max_results [] new_data = Inr new_data"
| "fetch_topics search http_get str_other max_results ((topic, search_query) # rest) new_data =
     (case fetch_daily_arxiv_papers search http_get str_other topic search_query max_results of
        Inl e \<Rightarrow> Inl e
      | Inr (table_data, list_data) \<Rightarrow>
          fetch_topics search http_get str_other max_results rest
            (fst new_data @ [table_data], snd new_data @ [list_data]))"

section \<open>Backfill (lines 264-317)\<close>

definition is_digit :: "char \<Rightarrow> bool" where
  "is_digit c = (let n = (of_char c :: nat) in 48 \<le> n \<and> n \<le> 57)"

text \<open>
  \<open>re.findall(r'\[(.*?)\]', s)[0]\<close>: the group of the leftmost match, the shortest run
  of characters other than the newline between an opening bracket and a closing one;
  \<open>IndexError\<close> when nothing matches.
\<close>

fun lazy_bracket :: "string \<Rightarrow> string option" where
  "lazy_bracket [] = None"
| "lazy_bracket (c # cs) =
     (if c = CHR '']'' then Some []
      else if c = CHR 0x0A then None
      else map_option ((#) c) (lazy_bracket cs))"

fun first_bracketed :: "string \<Rightarrow> exn + string" where
  "first_bracketed [] = Inl IndexError"
| "first_bracketed (c # cs) =
     (case (if c = CHR ''['' then lazy_bracket cs else None) of
        Some g \<Rightarrow> Inr g
      | None \<Rightarrow> first_bracketed cs)"

text \<open>
  \<open>re.sub(r'v\d+', '', s)\<close>: every \<open>v\<close> followed by digits is removed with all the digits
  that follow it. The flag says that the scan is inside such a match.
\<close>

fun re_sub_version :: "bool \<Rightarrow> string \<Rightarrow> string" where
  "re_sub_version in_match [] = []"
| "re_sub_version in_match (c # cs) =
     (if in_match \<and> is_digit c then re_sub_version True cs
      else if c = CHR ''v'' \<and> (case cs of [] \<Rightarrow> False | d # ds \<Rightarrow> is_digit d)
      then re_sub_version True cs
      else c # re_sub_version False cs)"

text \<open>\<open>xs[i]\<close> for an index that is not negative.\<close>

definition list_get :: "'a list \<Rightarrow> nat \<Rightarrow> exn + 'a" where
  "list_get xs i = (if i < length xs then Inr (xs ! i) else Inl IndexError)"

definition parse_paper_info_from_markdown ::
  "string \<Rightarrow> exn + (string \<times> string \<times> string \<times> string \<times> string)" where
  "parse_paper_info_from_markdown markdown_row =
     (let parts = map str_strip (str_split CHR ''|'' markdown_row)
      in ebind (list_get parts 1) (\<lambda>update_date.
         ebind (list_get parts 2) (\<lambda>title.
         ebind (list_get parts 3) (\<lambda>authors.
         ebind (list_get parts 4) (\<lambda>id_link.
         ebind (first_bracketed id_link) (\<lambda>bracketed.
         ebind (list_get parts 5) (\<lambda>code_link.
           Inr (update_date, title, authors, re_sub_version False bracketed, code_link))))))))"

text \<open>
  The assignment \<open>paper_data[topic][paper_id] = new_markdown_row\<close>. In the loop the topic
  is a key of the document.
\<close>

definition set_entry :: "string \<Rightarrow> string \<Rightarrow> string \<Rightarrow> document \<Rightarrow> document" where
  "set_entry topic paper_id new_markdown_row paper_data =
     (case map_of paper_data topic of
        Some papers \<Rightarrow> AList.update topic (AList.update paper_id new_markdown_row papers) paper_data
      | None \<Rightarrow> paper_data)"

text \<open>
  The body of the inner loop (lines 293-313) for one entry. The state is the document and
  the list of the addresses requested from the resolver so far. The row is parsed outside
  the \<open>try\<close>, so its \<open>IndexError\<close> is not caught; whatever the \<open>try\<close> raises is.
\<close>

definition backfill_entry ::
  "(string \<Rightarrow> exn + response) \<Rightarrow> (json \<Rightarrow> string) \<Rightarrow> string \<Rightarrow> string \<times> string
     \<Rightarrow> document \<times> string list \<Rightarrow> exn + (document \<times> string list)" where
  "backfill_entry http_get str_other topic entry state =
     (case entry of (paper_id, markdown_row) \<Rightarrow>
      case state of (paper_data, requested) \<Rightarrow>
        ebind (parse_paper_info_from_markdown markdown_row)
          (\<lambda>(update_date, title, authors, clean_id, old_code_link).
             if old_code_link = ''null''
             then (let pwc_api = PAPERS_WITH_CODE_BASE_URL @ clean_id
                   in case pwc_official_url http_get pwc_api of
                        Inr (Some url) \<Rightarrow>
                          (let new_code_link = ''**[link]('' @ py_str str_other url @ '')**'';
                               new_markdown_row =
                                 str_replace ''|null|'' (''|'' @ new_code_link @ ''|'') markdown_row
                           in Inr (set_entry topic paper_id new_markdown_row paper_data,
                                   requested @ [pwc_api]))
                      | Inr None \<Rightarrow> Inr (paper_data, requested @ [pwc_api])
                      | Inl e \<Rightarrow> Inr (paper_data, requested @ [pwc_api]))
             else Inr (paper_data, requested)))"

text \<open>
  The two loops (lines 290-292) over the items of the loaded document; an entry is read
  before the only assignment to it, so the loops run over the document as loaded.
\<close>

definition backfill_document ::
  "(string \<Rightarrow> exn + response) \<Rightarrow> (json \<Rightarrow> string) \<Rightarrow> document \<Rightarrow> exn + (document \<times> string list)" where
  "backfill_document http_get str_other paper_data =
     efold (\<lambda>(topic, papers) state. efold (backfill_entry http_get str_other topic) papers state)
       paper_data (paper_data, [])"

text \<open>
  \<open>update_paper_code_links\<close>: the new file system and the addresses requested. Nothing is
  written when the load or a row's parse raises.
\<close>

definition update_paper_code_links ::
  "(string \<Rightarrow> exn + document) \<Rightarrow> (document \<Rightarrow> string) \<Rightarrow> (string \<Rightarrow> exn + response)
     \<Rightarrow> (json \<Rightarrow> string) \<Rightarrow> filesystem \<Rightarrow> string \<Rightarrow> exn + (filesystem \<times> string list)" where
  "update_paper_code_links json_loads json_dumps http_get str_other fs json_file_path =
     (case load_paper_data json_loads fs json_file_path of
        Inl e \<Rightarrow> Inl e
      | Inr paper_data \<Rightarrow>
          (case backfill_document http_get str_other paper_data of
             Inl e \<Rightarrow> Inl e
           | Inr (new_data, requested) \<Rightarrow>
               Inr (fs(json_file_path \<mapsto> json_dumps new_data), requested)))"

section \<open>Notions used in the statements\<close>

text \<open>
  The resolver that answers with the empty payload \<open>{}\<close> wherever the \<open>try\<close> over
  \<open>http_get\<close> would raise, and is \<open>http_get\<close> elsewhere.
\<close>

definition no_link_on_error :: "(string \<Rightarrow> exn + response) \<Rightarrow> string \<Rightarrow> exn + response" where
  "no_link_on_error http_get api =
     (case pwc_official_url http_get api of
        Inl e \<Rightarrow> Inr \<lparr>status_code = 200, json_body = Inr (JObj [])\<rparr>
      | Inr found \<Rightarrow> http_get api)"






section \<open>Properties\<close>

subsection \<open>Identifier normalisation\<close>

lemma str_find_ge: "- 1 \<le> str_find c s"
  by (induction s) (auto simp: Let_def)

lemma str_find_absent: "str_find c s = - 1 \<longleftrightarrow> c \<notin> set s"
proof (induction s)
  case Nil
  show ?case by simp
next
  case (Cons x xs)
  have "- 1 \<le> str_find c xs" by (rule str_find_ge)
  with Cons show ?case by (auto simp: Let_def)
qed

lemma take_str_find:
  "c \<in> set s \<Longrightarrow> take (nat (str_find c s)) s = takeWhile (\<lambda>x. x \<noteq> c) s"
proof (induction s)
  case Nil
  then show ?case by simp
next
  case (Cons x xs)
  show ?case
  proof (cases "x = c")
    case True
    then show ?thesis by simp
  next
    case False
    with Cons.prems have mem: "c \<in> set xs" by simp
    then have ne: "str_find c xs \<noteq> - 1" by (simp add: str_find_absent)
    moreover have "- 1 \<le> str_find c xs" by (rule str_find_ge)
    ultimately have "0 \<le> str_find c xs" by arith
    then have "nat (str_find c xs + 1) = Suc (nat (str_find c xs))" by arith
    with False ne Cons.IH [OF mem] show ?thesis by (simp add: Let_def)
  qed
qed

lemma clean_paper_id_takeWhile:
  "clean_paper_id raw = takeWhile (\<lambda>x. x \<noteq> CHR ''v'') raw"
proof (cases "CHR ''v'' \<in> set raw")
  case True
  then show ?thesis
    by (simp add: clean_paper_id_def Let_def str_find_absent take_str_find)
next
  case False
  then have tw: "takeWhile (\<lambda>x. x \<noteq> CHR ''v'') raw = raw"
    by (intro takeWhile_eq_all_conv [THEN iffD2]) auto
  from False have "str_find CHR ''v'' raw = - 1"
    by (simp add: str_find_absent)
  then have "clean_paper_id raw = raw"
    by (simp add: clean_paper_id_def Let_def)
  with tw show ?thesis by (simp only:)
qed

lemma clean_paper_id_no_v: "CHR ''v'' \<notin> set (clean_paper_id raw)"
proof
  assume "CHR ''v'' \<in> set (clean_paper_id raw)"
  then have "CHR ''v'' \<in> set (takeWhile (\<lambda>x. x \<noteq> CHR ''v'') raw)"
    by (simp add: clean_paper_id_takeWhile)
  then show False by (auto dest: set_takeWhileD)
qed

text \<open>
  C9. Identifier normalisation is idempotent: normalising an identifier that is already
  the result of normalisation returns it unchanged; \<open>2108.09112v2\<close> normalises to
  \<open>2108.09112\<close>, and \<open>2108.09112\<close> to itself.
\<close>

theorem clean_paper_id_idempotent:
  "clean_paper_id (clean_paper_id raw) = clean_paper_id raw
   \<and> clean_paper_id ''2108.09112v2'' = ''2108.09112''
   \<and> clean_paper_id ''2108.09112'' = ''2108.09112''"
proof -
  have "str_find CHR ''v'' (clean_paper_id raw) = - 1"
    using clean_paper_id_no_v [of raw] by (simp add: str_find_absent)
  then have "clean_paper_id (clean_paper_id raw) = clean_paper_id raw"
    by (simp add: clean_paper_id_def [of "clean_paper_id raw"] Let_def)
  moreover have "clean_paper_id ''2108.09112v2'' = ''2108.09112''"
    by (simp add: clean_paper_id_takeWhile)
  moreover have "clean_paper_id ''2108.09112'' = ''2108.09112''"
    by (simp add: clean_paper_id_takeWhile)
  ultimately show ?thesis by simp
qed

text \<open>
  C5. The fetch cuts the identifier at its first \<open>v\<close>, wherever it stands: for the
  old-style identifier \<open>solv-int/9901001v1\<close> (archive \<open>solv-int\<close>) the result is
  \<open>sol\<close>, not the identifier without its version suffix.
\<close>

theorem clean_paper_id_cuts_at_first_v:
  "clean_paper_id ''solv-int/9901001v1'' = ''sol''
   \<and> clean_paper_id ''solv-int/9901001v1'' \<noteq> ''solv-int/9901001''"
  by (simp add: clean_paper_id_takeWhile)

subsection \<open>Merge\<close>

lemma map_of_rev_distinct: "distinct (map fst xs) \<Longrightarrow> map_of (rev xs) k = map_of xs k"
proof (induction xs)
  case Nil
  then show ?case by simp
next
  case (Cons x xs)
  obtain a b where x: "x = (a, b)" by (cases x)
  from Cons.prems x have notin: "a \<notin> fst ` set xs" and d: "distinct (map fst xs)" by auto
  from notin have none: "map_of xs a = None" by (simp add: map_of_eq_None_iff)
  show ?case
    using Cons.IH [OF d] none x
    by (auto simp: map_add_def split: option.splits)
qed

lemma map_of_dict_update:
  "map_of (dict_update d other) k =
     (case map_of (rev other) k of Some v \<Rightarrow> Some v | None \<Rightarrow> map_of d k)"
proof (induction other arbitrary: d)
  case Nil
  then show ?case by (simp add: dict_update_def)
next
  case (Cons x xs)
  obtain a b where x: "x = (a, b)" by (cases x)
  have step: "dict_update d (x # xs) = dict_update (AList.update a b d) xs"
    by (simp add: dict_update_def x)
  show ?case
    unfolding step Cons.IH
    by (auto simp: x update_conv' map_add_def split: option.splits)
qed

lemma map_of_merge_topic:
  "map_of (merge_topic (t, new) d) t' =
     (if t' = t
      then Some (case map_of d t of Some old \<Rightarrow> dict_update old new | None \<Rightarrow> new)
      else map_of d t')"
  by (auto simp: update_conv' split: option.splits)

lemma store_entry_merge_topic:
  assumes "distinct (map fst new)"
  shows "store_entry (merge_topic (t, new) d) t' k =
     (if t' = t
      then (case map_of new k of Some v \<Rightarrow> Some v | None \<Rightarrow> store_entry d t k)
      else store_entry d t' k)"
  unfolding store_entry_def map_of_merge_topic
  by (auto simp: map_of_dict_update map_of_rev_distinct [OF assms] split: option.splits)

lemma store_entry_fold_merge_topic:
  assumes "\<forall>(t, ps)\<in>set items. distinct (map fst ps)"
  shows "store_entry (fold merge_topic items d) topic k =
     (case batch_entry items topic k of Some v \<Rightarrow> Some v | None \<Rightarrow> store_entry d topic k)"
  using assms
proof (induction items arbitrary: d)
  case Nil
  then show ?case by simp
next
  case (Cons x xs)
  obtain t ps where x: "x = (t, ps)" by (cases x)
  from Cons.prems x have dps: "distinct (map fst ps)"
    and rest: "\<forall>(t, ps)\<in>set xs. distinct (map fst ps)" by auto
  show ?case
    using Cons.IH [OF rest, of "merge_topic (t, ps) d"] store_entry_merge_topic [OF dps, of t d topic k]
    by (auto simp: x split: option.splits)
qed

lemma map_of_fold_merge_topic_other:
  "topic \<notin> fst ` set items \<Longrightarrow> map_of (fold merge_topic items d) topic = map_of d topic"
proof (induction items arbitrary: d)
  case Nil
  then show ?case by simp
next
  case (Cons x xs)
  obtain t ps where x: "x = (t, ps)" by (cases x)
  from Cons.prems x have ne: "topic \<noteq> t" and rest: "topic \<notin> fst ` set xs" by auto
  have "map_of (merge_topic (t, ps) d) topic = map_of d topic"
    using ne by (simp only: map_of_merge_topic if_False)
  with Cons.IH [OF rest, of "merge_topic (t, ps) d"] show ?case by (simp add: x)
qed

lemma map_of_fold_merge_topic_kept:
  "map_of d topic \<noteq> None \<Longrightarrow> map_of (fold merge_topic items d) topic \<noteq> None"
proof (induction items arbitrary: d)
  case Nil
  then show ?case by simp
next
  case (Cons x xs)
  obtain t ps where x: "x = (t, ps)" by (cases x)
  have "map_of (merge_topic (t, ps) d) topic \<noteq> None"
    using Cons.prems by (simp only: map_of_merge_topic split: if_splits) simp
  from Cons.IH [OF this] show ?case by (simp add: x)
qed

lemma merge_papers_concat:
  "merge_papers existing new_papers_data = fold merge_topic (concat new_papers_data) existing"
proof -
  have "fold (fold merge_topic) xss d = fold merge_topic (concat xss) d" for xss d
    by (induction xss arbitrary: d) simp_all
  then show ?thesis by (simp add: merge_papers_def)
qed

text \<open>
  C1. For every store document and every batch of per-topic mappings (each a dictionary,
  so with distinct identifiers), after the merge the entry of an identifier under a topic
  is the text of the last mapping of the batch that holds it, and the stored entry when
  the batch holds none; a topic that no mapping of the batch names keeps its whole mapping;
  every topic of the store is still a topic of the result. So no entry is deleted, an entry
  changes only by being superseded, and everything else is identical to before.
\<close>

theorem merge_papers_postcondition:
  assumes "\<forall>new_topic_data\<in>set new_papers_data.
             \<forall>(topic, new_papers)\<in>set new_topic_data. distinct (map fst new_papers)"
  shows "store_entry (merge_papers existing_data new_papers_data) topic paper_id =
           (case batch_entry (concat new_papers_data) topic paper_id of
              Some v \<Rightarrow> Some v
            | None \<Rightarrow> store_entry existing_data topic paper_id)
         \<and> (topic \<notin> fst ` set (concat new_papers_data) \<longrightarrow>
              map_of (merge_papers existing_data new_papers_data) topic = map_of existing_data topic)
         \<and> (topic \<in> fst ` set existing_data \<longrightarrow>
              topic \<in> fst ` set (merge_papers existing_data new_papers_data))"
proof -
  from assms have d: "\<forall>(t, ps)\<in>set (concat new_papers_data). distinct (map fst ps)"
    by auto
  have kept: "topic \<in> fst ` set (merge_papers existing_data new_papers_data)"
    if "topic \<in> fst ` set existing_data"
  proof -
    from that have "map_of existing_data topic \<noteq> None" by (simp add: map_of_eq_None_iff)
    then have "map_of (merge_papers existing_data new_papers_data) topic \<noteq> None"
      unfolding merge_papers_concat by (rule map_of_fold_merge_topic_kept)
    then show ?thesis by (simp add: map_of_eq_None_iff)
  qed
  show ?thesis
    unfolding merge_papers_concat
    using store_entry_fold_merge_topic [OF d] map_of_fold_merge_topic_other kept
    by (simp add: merge_papers_concat)
qed

theorem merge_papers_postcondition_witness:
  "store_entry
     (merge_papers [(''A'', [(''1'', ''x''), (''2'', ''y'')]), (''B'', [(''9'', ''b'')])]
        [[(''A'', [(''2'', ''z''), (''3'', ''w'')])]]) ''A'' ''2'' = Some ''z''
   \<and> store_entry
     (merge_papers [(''A'', [(''1'', ''x''), (''2'', ''y'')]), (''B'', [(''9'', ''b'')])]
        [[(''A'', [(''2'', ''z''), (''3'', ''w'')])]]) ''A'' ''1'' = Some ''x''
   \<and> map_of
     (merge_papers [(''A'', [(''1'', ''x''), (''2'', ''y'')]), (''B'', [(''9'', ''b'')])]
        [[(''A'', [(''2'', ''z''), (''3'', ''w'')])]]) ''B'' = Some [(''9'', ''b'')]
   \<and> ''B'' \<in> fst ` set
     (merge_papers [(''A'', [(''1'', ''x''), (''2'', ''y'')]), (''B'', [(''9'', ''b'')])]
        [[(''A'', [(''2'', ''z''), (''3'', ''w'')])]])"
  using
    merge_papers_postcondition [of "[[(''A'', [(''2'', ''z''), (''3'', ''w'')])]]"
      "[(''A'', [(''1'', ''x''), (''2'', ''y'')]), (''B'', [(''9'', ''b'')])]" "''A''" "''2''"]
    merge_papers_postcondition [of "[[(''A'', [(''2'', ''z''), (''3'', ''w'')])]]"
      "[(''A'', [(''1'', ''x''), (''2'', ''y'')]), (''B'', [(''9'', ''b'')])]" "''A''" "''1''"]
    merge_papers_postcondition [of "[[(''A'', [(''2'', ''z''), (''3'', ''w'')])]]"
      "[(''A'', [(''1'', ''x''), (''2'', ''y'')]), (''B'', [(''9'', ''b'')])]" "''B''" "''9''"]
  by (simp add: store_entry_def)

subsection \<open>Keyword formatter\<close>

lemma parse_filter_loop_join:
  "n = idx + length rest \<Longrightarrow>
   parse_filter_loop n idx rest acc = acc @ str_join OR_SEPARATOR (map format_phrase rest)"
proof (induction rest arbitrary: idx acc)
  case Nil
  then show ?case by simp
next
  case (Cons x xs)
  show ?case
  proof (cases xs)
    case Nil
    with Cons.prems show ?thesis by (simp add: format_phrase_def)
  next
    case (Cons y ys)
    with Cons.prems have ne: "int idx \<noteq> int n - 1" by simp
    from Cons.prems have n: "n = Suc idx + length xs" by simp
    show ?thesis
      using Cons.IH [OF n] ne Cons by (simp add: format_phrase_def)
  qed
qed

text \<open>
  C6, as stated, fails: the single-token phrase \<open>SLAM\<close> of the example is emitted bare,
  not quoted, and a phrase that contains a space character but only one token (a leading
  space) is emitted bare as well.
\<close>

theorem parse_filter_keywords_example_counterexample:
  "parse_filter_keywords [''SLAM'', ''3D reconstruction'']
     \<noteq> [CHR 0x22] @ ''SLAM'' @ [CHR 0x22] @ '' OR '' @ [CHR 0x22] @ ''3D reconstruction'' @ [CHR 0x22]
   \<and> CHR '' '' \<in> set '' SLAM'' \<and> parse_filter_keywords ['' SLAM''] = '' SLAM''"
  by (simp add: parse_filter_keywords_def str_split_ws_def is_space_def QUOTE_def
      OR_SEPARATOR_def)

text \<open>
  C6, amended. For every list of phrases the output joins the formatted phrases with
  \<open>" OR "\<close>; a phrase with more than one whitespace-separated token is wrapped in exactly
  one pair of double quotes and every other phrase is emitted bare; a single-phrase list
  produces no separator; the empty list yields the empty string; the example list yields
  \<open>SLAM OR "3D reconstruction"\<close>.
\<close>

theorem parse_filter_keywords_join:
  "parse_filter_keywords filters = str_join '' OR '' (map format_phrase filters)
   \<and> format_phrase p =
       (if 1 < length (str_split_ws p) then [CHR 0x22] @ p @ [CHR 0x22] else p)
   \<and> parse_filter_keywords [] = []
   \<and> parse_filter_keywords [p] = format_phrase p
   \<and> parse_filter_keywords [''SLAM'', ''3D reconstruction'']
       = ''SLAM OR '' @ [CHR 0x22] @ ''3D reconstruction'' @ [CHR 0x22]"
proof -
  have join: "parse_filter_keywords fs = str_join '' OR '' (map format_phrase fs)" for fs
    using parse_filter_loop_join [of "length fs" 0 fs "[]"]
    by (simp add: parse_filter_keywords_def OR_SEPARATOR_def)
  have single: "format_phrase ''SLAM'' = ''SLAM''"
    by (simp add: format_phrase_def str_split_ws_def is_space_def)
  have multi: "format_phrase ''3D reconstruction'' = [CHR 0x22] @ ''3D reconstruction'' @ [CHR 0x22]"
    by (simp add: format_phrase_def str_split_ws_def is_space_def QUOTE_def)
  show ?thesis
    unfolding join by (simp add: single multi) (simp add: format_phrase_def QUOTE_def)
qed

subsection \<open>LaTeX fix-up\<close>

text \<open>
  C8. The pattern is greedy, so the region the code treats runs from the first dollar sign
  to the last dollar sign of the line, not to the dollar sign that closes the first
  formula. On \<open>x$a$ costs 5$y\<close>, a line with the one formula \<open>$a$\<close> and a later
  dollar sign, the fix-up of the first delimited substring gives \<open>x $a$ costs 5$y\<close>;
  the code gives \<open>x $a$ costs 5$ y\<close>, with the space after the last dollar sign. On a
  line with two formulas it leaves the inner dollar signs without spaces. The two examples
  of the claim come out as stated.
\<close>

theorem format_latex_formula_greedy_region:
  "format_latex_formula ''x$a$ costs 5$y'' = ''x $a$ costs 5$ y''
   \<and> spec_first_pair_fixup ''x$a$ costs 5$y'' = ''x $a$ costs 5$y''
   \<and> format_latex_formula ''a$x$b$y$c'' = ''a $x$b$y$ c''
   \<and> spec_first_pair_fixup ''a$x$b$y$c'' = ''a $x$ b$y$c''
   \<and> format_latex_formula ''text$x+y$more'' = ''text $x+y$ more''
   \<and> format_latex_formula ''text $x+y$ more'' = ''text $x+y$ more''"
  by (simp add: format_latex_formula_def spec_first_pair_fixup_def str_strip_def is_space_def)

subsection \<open>Renderer\<close>

lemma render_topic_empty: "render_topic opts current_date (topic, []) = []"
  by (simp add: render_topic_def)

lemma render_sections_drop_empty:
  "render_sections opts current_date (drop_empty_topics paper_data) =
   render_sections opts current_date paper_data"
proof (induction paper_data)
  case Nil
  show ?case by (simp add: drop_empty_topics_def)
next
  case (Cons x xs)
  obtain t ps where x: "x = (t, ps)" by (cases x)
  from Cons show ?case
    by (cases "ps = []") (simp_all add: x drop_empty_topics_def render_sections_def render_topic_empty)
qed

text \<open>
  C7, as stated, fails: with the table of contents enabled a topic whose entry mapping is
  empty still has its line in the table of contents, so the output differs from the output
  of the document without the topic.
\<close>

theorem render_markdown_empty_topic_counterexample:
  "render_toc [(''SLAM'', [])] =
     ''<details>'' @ NL @ ''  <summary>Table of Contents</summary>'' @ NL @ ''  <ol>'' @ NL
     @ ''    <li><a href=#slam>SLAM</a></li>'' @ NL
     @ ''  </ol>'' @ NL @ ''</details>'' @ NL @ NL
   \<and> render_markdown
       \<lparr>to_web = False, use_title = True, use_toc = True, show_badge = True,
        use_back_to_top = True\<rparr> ''2024.01.02'' [(''SLAM'', [])]
     \<noteq> render_markdown
       \<lparr>to_web = False, use_title = True, use_toc = True, show_badge = True,
        use_back_to_top = True\<rparr> ''2024.01.02'' []"
  by code_simp

text \<open>
  C7, amended. For every store document and every option combination, a topic whose entry
  mapping is empty produces no section: no heading, no column header, no entry and no
  back-to-top link. The sections of the output are those of the document without its empty
  topics, and with the table of contents disabled so is the whole output; the table of
  contents, when enabled, still lists the topic.
\<close>

theorem render_markdown_skips_empty_topics:
  "render_markdown opts current_date paper_data =
     render_head opts current_date
     @ (if use_toc opts then render_toc paper_data else [])
     @ render_sections opts current_date (drop_empty_topics paper_data)
     @ (if show_badge opts then badge_template else [])
   \<and> render_topic opts current_date (topic, []) = []
   \<and> (\<not> use_toc opts \<longrightarrow>
        render_markdown opts current_date paper_data =
        render_markdown opts current_date (drop_empty_topics paper_data))"
  by (simp add: render_markdown_def render_sections_drop_empty render_topic_empty)

theorem render_markdown_skips_empty_topics_witness:
  "render_markdown
     \<lparr>to_web = True, use_title = True, use_toc = False, show_badge = False,
      use_back_to_top = False\<rparr> ''2024.01.02''
     [(''SLAM'', []), (''NeRF'', [(''2401.00002'', ''|row|'' @ NL)])]
   = render_markdown
     \<lparr>to_web = True, use_title = True, use_toc = False, show_badge = False,
      use_back_to_top = False\<rparr> ''2024.01.02''
     [(''NeRF'', [(''2401.00002'', ''|row|'' @ NL)])]"
  using render_markdown_skips_empty_topics
    [of "\<lparr>to_web = True, use_title = True, use_toc = False, show_badge = False,
      use_back_to_top = False\<rparr>" "''2024.01.02''"
      "[(''SLAM'', []), (''NeRF'', [(''2401.00002'', ''|row|'' @ NL)])]" "''SLAM''",
      THEN conjunct2, THEN conjunct2]
  by (simp add: drop_empty_topics_def)

subsection \<open>Resolver failures\<close>

lemma pwc_official_url_cong:
  "h api = h' api \<Longrightarrow> pwc_official_url h api = pwc_official_url h' api"
  by (simp add: pwc_official_url_def)

lemma pwc_official_url_no_link_on_error:
  "pwc_official_url (no_link_on_error http_get) api =
     (case pwc_official_url http_get api of Inl e \<Rightarrow> Inr None | Inr found \<Rightarrow> Inr found)"
proof (cases "pwc_official_url http_get api")
  case (Inl e)
  then have "no_link_on_error http_get api = Inr \<lparr>status_code = 200, json_body = Inr (JObj [])\<rparr>"
    by (simp add: no_link_on_error_def)
  then have "pwc_official_url (no_link_on_error http_get) api = Inr None"
    by (simp add: pwc_official_url_def ebind_def raise_for_status_def)
  with Inl show ?thesis by simp
next
  case (Inr found)
  then have "no_link_on_error http_get api = http_get api"
    by (simp add: no_link_on_error_def)
  then have "pwc_official_url (no_link_on_error http_get) api = pwc_official_url http_get api"
    by (rule pwc_official_url_cong)
  with Inr show ?thesis by simp
qed

lemma fetch_code_url_no_link_on_error:
  "fetch_code_url (no_link_on_error http_get) api = fetch_code_url http_get api"
  by (simp add: fetch_code_url_def pwc_official_url_no_link_on_error split: sum.splits)

lemma fetch_paper_no_link_on_error:
  "fetch_paper (no_link_on_error http_get) str_other = fetch_paper http_get str_other"
  by (intro ext) (simp add: fetch_paper_def fetch_code_url_no_link_on_error)

lemma fetch_daily_no_link_on_error:
  "fetch_daily_arxiv_papers search (no_link_on_error http_get) str_other topic q n =
   fetch_daily_arxiv_papers search http_get str_other topic q n"
  by (simp add: fetch_daily_arxiv_papers_def fetch_paper_no_link_on_error split: sum.splits)

lemma fetch_topics_no_link_on_error:
  "fetch_topics search (no_link_on_error http_get) str_other n topics acc =
   fetch_topics search http_get str_other n topics acc"
  by (induction topics arbitrary: acc)
    (auto simp: fetch_daily_no_link_on_error split: sum.splits prod.splits)

lemma backfill_entry_no_link_on_error:
  "backfill_entry (no_link_on_error http_get) str_other = backfill_entry http_get str_other"
  by (intro ext)
    (auto simp: backfill_entry_def pwc_official_url_no_link_on_error ebind_def Let_def
      split: sum.splits option.splits prod.splits)

lemma backfill_document_no_link_on_error:
  "backfill_document (no_link_on_error http_get) str_other doc =
   backfill_document http_get str_other doc"
  by (simp add: backfill_document_def backfill_entry_no_link_on_error)

lemma fetch_daily_fails_iff:
  "(fetch_daily_arxiv_papers search http_get str_other topic q n = Inl e) = (search q n = Inl e)"
  by (auto simp: fetch_daily_arxiv_papers_def split: sum.splits prod.splits)

lemma backfill_entry_fails_iff:
  "(backfill_entry http_get str_other topic entry state = Inl e)
     = (parse_paper_info_from_markdown (snd entry) = Inl e)"
  by (auto simp: backfill_entry_def ebind_def Let_def split: sum.splits option.splits prod.splits)

lemma efold_backfill_entry_fails_indep:
  "(efold (backfill_entry h s topic) papers st = Inl e)
     = (efold (backfill_entry h' s' topic) papers st' = Inl e)"
proof (induction papers arbitrary: st st')
  case Nil
  show ?case by simp
next
  case (Cons x xs)
  show ?case
  proof (cases "parse_paper_info_from_markdown (snd x)")
    case (Inl e')
    then have "backfill_entry h s topic x st = Inl e'" "backfill_entry h' s' topic x st' = Inl e'"
      by (simp_all add: backfill_entry_fails_iff)
    then show ?thesis by simp
  next
    case (Inr info)
    have "\<exists>r. backfill_entry h s topic x st = Inr r"
      using backfill_entry_fails_iff [of h s topic x st] Inr
      by (cases "backfill_entry h s topic x st") auto
    then obtain r where r: "backfill_entry h s topic x st = Inr r" by blast
    have "\<exists>r. backfill_entry h' s' topic x st' = Inr r"
      using backfill_entry_fails_iff [of h' s' topic x st'] Inr
      by (cases "backfill_entry h' s' topic x st'") auto
    then obtain r' where r': "backfill_entry h' s' topic x st' = Inr r'" by blast
    show ?thesis using Cons.IH [of r r'] by (simp add: r r')
  qed
qed

lemma efold_topics_fails_indep:
  "(efold (\<lambda>(topic, papers) state. efold (backfill_entry h s topic) papers state) doc st = Inl e)
     = (efold (\<lambda>(topic, papers) state. efold (backfill_entry h' s' topic) papers state) doc st' = Inl e)"
proof (induction doc arbitrary: st st')
  case Nil
  show ?case by simp
next
  case (Cons x xs)
  obtain t ps where x: "x = (t, ps)" by (cases x)
  show ?case
  proof (cases "efold (backfill_entry h s t) ps st")
    case (Inl e1)
    with efold_backfill_entry_fails_indep [of h s t ps st e1 h' s' st']
    show ?thesis by (simp add: x)
  next
    case (Inr r)
    have "\<exists>r'. efold (backfill_entry h' s' t) ps st' = Inr r'"
    proof (cases "efold (backfill_entry h' s' t) ps st'")
      case (Inl e2)
      with efold_backfill_entry_fails_indep [of h s t ps st e2 h' s' st'] Inr
      show ?thesis by simp
    next
      case (Inr r')
      then show ?thesis by blast
    qed
    then obtain r' where "efold (backfill_entry h' s' t) ps st' = Inr r'" by blast
    with Inr Cons.IH [of r r'] show ?thesis by (simp add: x)
  qed
qed

lemma backfill_document_fails_indep:
  "(backfill_document h s doc = Inl e) = (backfill_document h' s' doc = Inl e)"
  unfolding backfill_document_def by (rule efold_topics_fails_indep)

lemma backfill_entry_caught:
  assumes "parse_paper_info_from_markdown markdown_row = Inr (d, t, a, clean_id, ''null'')"
    and "pwc_official_url http_get (PAPERS_WITH_CODE_BASE_URL @ clean_id) = Inl e"
  shows "backfill_entry http_get str_other topic (paper_id, markdown_row) (paper_data, requested)
         = Inr (paper_data, requested @ [PAPERS_WITH_CODE_BASE_URL @ clean_id])"
  using assms by (simp add: backfill_entry_def ebind_def)

text \<open>
  C4. Resolver-failure containment. Whatever the resolver call raises inside the \<open>try\<close>
  of the fetch and of the backfill (the request, the status check, the decoding of the
  payload, the reading of a malformed payload) is caught and treated as no code link:
  the fetch of a topic, the loop over the topics and the backfill of a document give the
  same result as with the resolver that answers the empty payload wherever the original
  raises, and that resolver never raises; an item whose resolver call raises gets no code
  link, a backfill entry whose resolver call raises leaves the document as it is and the
  loop goes on. The fetch fails exactly when the search fails, and whether the backfill
  fails does not depend on the resolver.
\<close>

theorem resolver_failure_contained:
  "fetch_daily_arxiv_papers search (no_link_on_error http_get) str_other topic q n
     = fetch_daily_arxiv_papers search http_get str_other topic q n
   \<and> fetch_topics search (no_link_on_error http_get) str_other n topics acc
     = fetch_topics search http_get str_other n topics acc
   \<and> backfill_document (no_link_on_error http_get) str_other doc
     = backfill_document http_get str_other doc
   \<and> pwc_official_url (no_link_on_error http_get) api \<noteq> Inl e
   \<and> (pwc_official_url http_get api = Inl e \<longrightarrow> fetch_code_url http_get api = None)
   \<and> (parse_paper_info_from_markdown markdown_row = Inr (d, t, a, clean_id, ''null'')
        \<and> pwc_official_url http_get (PAPERS_WITH_CODE_BASE_URL @ clean_id) = Inl e \<longrightarrow>
      backfill_entry http_get str_other topic (paper_id, markdown_row) (paper_data, requested)
        = Inr (paper_data, requested @ [PAPERS_WITH_CODE_BASE_URL @ clean_id]))
   \<and> (fetch_daily_arxiv_papers search http_get str_other topic q n = Inl e) = (search q n = Inl e)
   \<and> (backfill_document http_get str_other doc = Inl e)
     = (backfill_document other_http_get str_other doc = Inl e)"
proof -
  have "pwc_official_url (no_link_on_error http_get) api \<noteq> Inl e"
    by (simp add: pwc_official_url_no_link_on_error split: sum.splits)
  moreover have "pwc_official_url http_get api = Inl e \<longrightarrow> fetch_code_url http_get api = None"
    by (simp add: fetch_code_url_def)
  moreover note fetch_daily_no_link_on_error [of search http_get str_other topic q n]
    fetch_topics_no_link_on_error [of search http_get str_other n topics acc]
    backfill_document_no_link_on_error [of http_get str_other doc]
    backfill_entry_caught [of markdown_row d t a clean_id http_get e str_other topic paper_id
      paper_data requested]
    fetch_daily_fails_iff [of search http_get str_other topic q n e]
    backfill_document_fails_indep [of http_get str_other doc e other_http_get str_other]
  ultimately show ?thesis by blast
qed

theorem resolver_failure_contained_witness:
  "pwc_official_url (\<lambda>url. Inl RequestException) ''https://arxiv.paperswithcode.com/api/v0/papers/1'' = Inl RequestException
   \<and> fetch_code_url (\<lambda>url. Inl RequestException) ''https://arxiv.paperswithcode.com/api/v0/papers/1'' = None
   \<and> parse_paper_info_from_markdown ''|d|t|a|[1](u)|null|'' = Inr (''d'', ''t'', ''a'', ''1'', ''null'')
   \<and> backfill_entry (\<lambda>url. Inl RequestException) (\<lambda>v. []) ''SLAM'' (''1'', ''|d|t|a|[1](u)|null|'')
         ([(''SLAM'', [(''1'', ''|d|t|a|[1](u)|null|'')])], [])
       = Inr ([(''SLAM'', [(''1'', ''|d|t|a|[1](u)|null|'')])],
              [''https://arxiv.paperswithcode.com/api/v0/papers/1''])"
proof -
  have p: "parse_paper_info_from_markdown ''|d|t|a|[1](u)|null|'' = Inr (''d'', ''t'', ''a'', ''1'', ''null'')"
    by (simp add: parse_paper_info_from_markdown_def ebind_def list_get_def str_strip_def
        is_space_def is_digit_def)
  have r: "pwc_official_url (\<lambda>url. Inl RequestException) (PAPERS_WITH_CODE_BASE_URL @ ''1'') = Inl RequestException"
    by (simp add: pwc_official_url_def ebind_def)
  show ?thesis
    using resolver_failure_contained [where http_get = "\<lambda>url. Inl RequestException"
        and api = "PAPERS_WITH_CODE_BASE_URL @ ''1''" and e = RequestException
        and markdown_row = "''|d|t|a|[1](u)|null|''"
        and d = "''d''" and t = "''t''" and a = "''a''" and clean_id = "''1''"
        and str_other = "\<lambda>v. []" and topic = "''SLAM''" and paper_id = "''1''"
        and paper_data = "[(''SLAM'', [(''1'', ''|d|t|a|[1](u)|null|'')])]"
        and requested = "[]"] p r
    by (simp add: PAPERS_WITH_CODE_BASE_URL_def)
qed

subsection \<open>Store load\<close>

lemma load_paper_data_empty: "fs path = Some [] \<Longrightarrow> load_paper_data json_loads fs path = Inr []"
  by (simp add: load_paper_data_def read_file_def)

lemma load_paper_data_absent:
  "fs path = None \<Longrightarrow> load_paper_data json_loads fs path = Inl FileNotFoundError"
  by (simp add: load_paper_data_def read_file_def)

text \<open>
  C3, as stated, fails: when the backing file is absent, \<open>open\<close> raises
  \<open>FileNotFoundError\<close> in the merge, in the backfill and in the renderer; nothing catches
  it and no empty document is produced.
\<close>

theorem load_paper_data_absent_counterexample:
  "load_paper_data (\<lambda>content. Inl JSONDecodeError) Map.empty ''docs/cv-arxiv-daily.json''
     = Inl FileNotFoundError
   \<and> update_papers_json_file (\<lambda>content. Inl JSONDecodeError) (\<lambda>doc. ''{}'') Map.empty
       ''docs/cv-arxiv-daily.json'' [[(''SLAM'', [])]] = Inl FileNotFoundError
   \<and> update_paper_code_links (\<lambda>content. Inl JSONDecodeError) (\<lambda>doc. ''{}'')
       (\<lambda>url. Inl RequestException) (\<lambda>v. []) Map.empty ''docs/cv-arxiv-daily.json''
       = Inl FileNotFoundError
   \<and> convert_json_to_markdown (\<lambda>content. Inl JSONDecodeError) ''2024.01.02'' Map.empty
       ''docs/cv-arxiv-daily.json'' ''README.md''
       \<lparr>to_web = False, use_title = True, use_toc = True, show_badge = True,
        use_back_to_top = True\<rparr> = Inl FileNotFoundError"
  by (simp add: load_paper_data_def read_file_def update_papers_json_file_def
      update_paper_code_links_def convert_json_to_markdown_def)

text \<open>
  C3, amended. Whenever a store document is read (by the merge, the backfill or the
  renderer), a backing file that is empty yields the empty document and no error: the
  merge writes the merge of the empty document with the batch, the backfill writes the
  empty document and requests nothing, the renderer renders the empty document. A backing
  file that is absent raises \<open>FileNotFoundError\<close> in all three, and nothing is written.
\<close>

theorem load_paper_data_empty_or_absent:
  "(fs json_file_path = Some [] \<longrightarrow>
      load_paper_data json_loads fs json_file_path = Inr []
      \<and> update_papers_json_file json_loads json_dumps fs json_file_path new_papers_data
          = Inr (fs(json_file_path \<mapsto> json_dumps (merge_papers [] new_papers_data)))
      \<and> update_paper_code_links json_loads json_dumps http_get str_other fs json_file_path
          = Inr (fs(json_file_path \<mapsto> json_dumps []), [])
      \<and> convert_json_to_markdown json_loads current_date fs json_file_path md_file_path opts
          = Inr (fs(md_file_path \<mapsto> render_markdown opts current_date [])))
   \<and> (fs json_file_path = None \<longrightarrow>
      load_paper_data json_loads fs json_file_path = Inl FileNotFoundError
      \<and> update_papers_json_file json_loads json_dumps fs json_file_path new_papers_data
          = Inl FileNotFoundError
      \<and> update_paper_code_links json_loads json_dumps http_get str_other fs json_file_path
          = Inl FileNotFoundError
      \<and> convert_json_to_markdown json_loads current_date fs json_file_path md_file_path opts
          = Inl FileNotFoundError)"
  by (simp add: load_paper_data_empty load_paper_data_absent update_papers_json_file_def
      update_paper_code_links_def convert_json_to_markdown_def backfill_document_def)

theorem load_paper_data_empty_or_absent_witness:
  "load_paper_data (\<lambda>content. Inl JSONDecodeError) [''papers.json'' \<mapsto> []] ''papers.json'' = Inr []
   \<and> update_paper_code_links (\<lambda>content. Inl JSONDecodeError) (\<lambda>doc. ''{}'')
       (\<lambda>url. Inl RequestException) (\<lambda>v. []) [''papers.json'' \<mapsto> []] ''papers.json''
       = Inr ([''papers.json'' \<mapsto> ''{}''], [])
   \<and> load_paper_data (\<lambda>content. Inl JSONDecodeError) [''other.json'' \<mapsto> []] ''papers.json''
       = Inl FileNotFoundError"
  using
    load_paper_data_empty_or_absent [where fs = "[''papers.json'' \<mapsto> []]"
      and json_file_path = "''papers.json''" and json_loads = "\<lambda>content. Inl JSONDecodeError"
      and json_dumps = "\<lambda>doc. ''{}''" and http_get = "\<lambda>url. Inl RequestException"
      and str_other = "\<lambda>v. []"]
    load_paper_data_empty_or_absent [where fs = "[''other.json'' \<mapsto> []]"
      and json_file_path = "''papers.json''" and json_loads = "\<lambda>content. Inl JSONDecodeError"]
  by simp

subsection \<open>Empty topics\<close>








subsection \<open>Backfill\<close>

text \<open>
  C2. The backfill mutates more than the claim allows. When the resolver reports an
  official entry whose \<open>url\<close> is \<open>null\<close>, no link resolves, yet the sentinel row is
  rewritten with the link \<open>None\<close> (\<open>str(None)\<close>); the fetch, given the same answer,
  tests the link and writes the sentinel. When a link is found, every occurrence of
  \<open>|null|\<close> in the row is replaced, so a title column \<open>null\<close> is rewritten with the
  code-link column; and a row whose code-link column is the sentinel padded with spaces is
  looked up but not rewritten.
\<close>

theorem backfill_mutates_beyond_code_column:
  "backfill_document
     (\<lambda>url. Inr \<lparr>status_code = 200,
        json_body = Inr (JObj [(''official'', JObj [(''url'', JNull)])])\<rparr>)
     (\<lambda>v. ''None'')
     [(''SLAM'',
       [(''2401.00001'', ''|**2024-01-02**|**T**|A et.al.|[2401.00001](http://arxiv.org/abs/2401.00001)|null|'' @ NL)])]
   = Inr ([(''SLAM'',
       [(''2401.00001'', ''|**2024-01-02**|**T**|A et.al.|[2401.00001](http://arxiv.org/abs/2401.00001)|**[link](None)**|'' @ NL)])],
      [''https://arxiv.paperswithcode.com/api/v0/papers/2401.00001''])
   \<and> table_row (\<lambda>v. ''None'') ''2024-01-02'' ''T'' ''A et.al.'' ''2401.00001''
       (fetch_code_url
          (\<lambda>url. Inr \<lparr>status_code = 200,
             json_body = Inr (JObj [(''official'', JObj [(''url'', JNull)])])\<rparr>)
          ''https://arxiv.paperswithcode.com/api/v0/papers/2401.00001'')
     = ''|**2024-01-02**|**T**|A et.al.|[2401.00001](http://arxiv.org/abs/2401.00001)|null|'' @ NL
   \<and> backfill_document
     (\<lambda>url. Inr \<lparr>status_code = 200,
        json_body = Inr (JObj [(''official'', JObj [(''url'', JStr ''https://github.com/a/b'')])])\<rparr>)
     (\<lambda>v. ''None'')
     [(''SLAM'',
       [(''2401.00001'', ''|**2024-01-02**|null|A et.al.|[2401.00001](http://arxiv.org/abs/2401.00001)|null|''),
        (''2401.00002'', ''|**2024-01-02**|**T**|B et.al.|[2401.00002](http://arxiv.org/abs/2401.00002)| null |'')])]
   = Inr ([(''SLAM'',
       [(''2401.00001'', ''|**2024-01-02**|**[link](https://github.com/a/b)**|A et.al.|[2401.00001](http://arxiv.org/abs/2401.00001)|**[link](https://github.com/a/b)**|''),
        (''2401.00002'', ''|**2024-01-02**|**T**|B et.al.|[2401.00002](http://arxiv.org/abs/2401.00002)| null |'')])],
      [''https://arxiv.paperswithcode.com/api/v0/papers/2401.00001'',
       ''https://arxiv.paperswithcode.com/api/v0/papers/2401.00002''])"
  by code_simp

end
